theory Spec2Isabelle
  imports Complex_Main "HOL-Library.Multiset" "HOL-Library.Log_Nat"
begin

section \<open>Python values used by the dataset module\<close>

text \<open>
  The module \<^verbatim>\<open>yj/dataset.py\<close> raises Python exceptions; every raise of the
  source is a value of \<open>py_error\<close> here, and a function that may raise returns
  \<open>py_error + 'a\<close> with the error on the left.
\<close>

datatype py_error =
    GenderValueError    \<comment> \<open>ValueError raised by \<^verbatim>\<open>GenderLabels.from_str\<close>\<close>
  | AgeValueError       \<comment> \<open>ValueError raised by \<^verbatim>\<open>AgeLabels.from_number\<close>\<close>
  | UnpackValueError    \<comment> \<open>ValueError of \<^verbatim>\<open>id, gender, race, age = profile.split("_")\<close>\<close>
  | RandomSplitValueError \<comment> \<open>ValueError of \<^verbatim>\<open>random_split\<close>: lengths do not sum to the size\<close>
  | WeightsValueError   \<comment> \<open>ValueError of \<^verbatim>\<open>random.choices\<close>: the weights sum to nothing\<close>
  | OverflowError       \<comment> \<open>a float too large for \<^verbatim>\<open>int\<close>, an integer too large for a float\<close>
  | IndexError
  | KeyError
  | AssertionError
  | OSError             \<comment> \<open>\<^verbatim>\<open>os.listdir\<close> or \<^verbatim>\<open>Image.open\<close> failed\<close>

text \<open>
  A character is a code point below 256, so the strings of the model are the Python
  strings over Latin-1. There \<^verbatim>\<open>str.lower\<close> changes the letters A to Z and the
  accented capitals from code point 192 to 222, the multiplication sign 215 apart.
\<close>

definition py_lower_char :: "char \<Rightarrow> char" where
  "py_lower_char c =
     (let n = (of_char c :: nat)
      in if (65 \<le> n \<and> n \<le> 90) \<or> (192 \<le> n \<and> n \<le> 222 \<and> n \<noteq> 215)
         then char_of (n + 32) else c)"

definition py_lower :: "string \<Rightarrow> string" where
  "py_lower s = map py_lower_char s"

definition startswith :: "string \<Rightarrow> string \<Rightarrow> bool" where
  "startswith s p = (take (length p) s = p)"

text \<open>\<^verbatim>\<open>s.split(sep)\<close> for a one-character separator: the fields between the separators.\<close>

fun py_split :: "char \<Rightarrow> string \<Rightarrow> string list" where
  "py_split sep [] = [[]]"
| "py_split sep (c # cs) =
     (if c = sep then [] # py_split sep cs
      else (case py_split sep cs of
              [] \<Rightarrow> [[c]]
            | f # fs \<Rightarrow> (c # f) # fs))"

text \<open>
  \<^verbatim>\<open>int(s)\<close> on a string, base ten. Blanks around the number are dropped: the
  ASCII blanks 9 to 13 and 32, and the two blanks of Latin-1 beyond ASCII, 133 and
  160 (the control characters 28 to 31 are no blanks for \<^verbatim>\<open>int\<close>). One sign is
  allowed, then digits, with single underscores allowed between two digits. Anything
  else raises, which is \<open>None\<close> here. The interpreter also refuses a number of more
  than \<^verbatim>\<open>sys.get_int_max_str_digits()\<close> digits when that limit is set: the limit is
  the parameter \<open>max_digits\<close>, 0 when there is none (4300 unless configured, in the
  interpreters that have it), and it is looked at for more than 640 digits only.
\<close>

definition is_space :: "char \<Rightarrow> bool" where
  "is_space c =
     (let n = (of_char c :: nat) in (9 \<le> n \<and> n \<le> 13) \<or> n = 32 \<or> n = 133 \<or> n = 160)"

definition is_digit :: "char \<Rightarrow> bool" where
  "is_digit c = (let n = (of_char c :: nat) in 48 \<le> n \<and> n \<le> 57)"

definition digit_value :: "char \<Rightarrow> int" where
  "digit_value c = int (of_char c) - 48"

definition py_strip :: "string \<Rightarrow> string" where
  "py_strip s = rev (dropWhile is_space (rev (dropWhile is_space s)))"

fun digits_value :: "bool \<Rightarrow> int \<Rightarrow> string \<Rightarrow> int option" where
  "digits_value prev acc [] = (if prev then Some acc else None)"
| "digits_value prev acc (c # cs) =
     (if is_digit c then digits_value True (acc * 10 + digit_value c) cs
      else if c = CHR ''_'' \<and> prev then digits_value False acc cs
      else None)"

definition too_many_digits :: "nat \<Rightarrow> string \<Rightarrow> bool" where
  "too_many_digits max_digits s =
     (let digits = length (filter is_digit s) in 640 < digits \<and> 0 < max_digits \<and> max_digits < digits)"

definition int_of_string :: "nat \<Rightarrow> string \<Rightarrow> int option" where
  "int_of_string max_digits s =
     (if too_many_digits max_digits s then None
      else
        (case py_strip s of
           [] \<Rightarrow> None
         | c # cs \<Rightarrow>
             if c = CHR ''-'' then map_option uminus (digits_value False 0 cs)
             else if c = CHR ''+'' then digits_value False 0 cs
             else digits_value False 0 (c # cs)))"

datatype py_value = PyStr string | PyInt int

fun py_int :: "nat \<Rightarrow> py_value \<Rightarrow> int option" where
  "py_int max_digits (PyInt n) = Some n"
| "py_int max_digits (PyStr s) = int_of_string max_digits s"

section \<open>Label taxonomy\<close>

text \<open>
  The three enumerations are \<^verbatim>\<open>IntEnum\<close>-like classes (\<^verbatim>\<open>class MaskLabels(int, Enum)\<close>):
  a member takes part in integer arithmetic with its value.
\<close>

datatype MaskLabels = MASK | INCORRECT | NORMAL

datatype GenderLabels = MALE | FEMALE

datatype AgeLabels = YOUNG | MIDDLE | OLD

fun mask_value :: "MaskLabels \<Rightarrow> int" where
  "mask_value MASK = 0"
| "mask_value INCORRECT = 1"
| "mask_value NORMAL = 2"

fun gender_value :: "GenderLabels \<Rightarrow> int" where
  "gender_value MALE = 0"
| "gender_value FEMALE = 1"

fun age_value :: "AgeLabels \<Rightarrow> int" where
  "age_value YOUNG = 0"
| "age_value MIDDLE = 1"
| "age_value OLD = 2"

definition GenderLabels_from_str :: "string \<Rightarrow> py_error + GenderLabels" where
  "GenderLabels_from_str v =
     (let v = py_lower v in
      if v = ''male'' then Inr MALE
      else if v = ''female'' then Inr FEMALE
      else Inl GenderValueError)"

definition AgeLabels_from_number :: "nat \<Rightarrow> py_value \<Rightarrow> py_error + AgeLabels" where
  "AgeLabels_from_number max_digits v =
     (case py_int max_digits v of
        None \<Rightarrow> Inl AgeValueError
      | Some n \<Rightarrow>
          if n < 30 then Inr YOUNG
          else if n < 60 then Inr MIDDLE
          else Inr OLD)"

section \<open>Label encoder\<close>

definition encode_multi_class :: "int \<Rightarrow> int \<Rightarrow> int \<Rightarrow> int" where
  "encode_multi_class mask_label gender_label age_label =
     mask_label * 6 + gender_label * 3 + age_label"

text \<open>Python's \<^verbatim>\<open>//\<close> and \<^verbatim>\<open>%\<close> round to minus infinity, as \<open>div\<close> and \<open>mod\<close> on \<open>int\<close> do.\<close>

definition decode_multi_class :: "int \<Rightarrow> int \<times> int \<times> int" where
  "decode_multi_class multi_class_label =
     (let mask_label = (multi_class_label div 6) mod 3;
          gender_label = (multi_class_label div 3) mod 2;
          age_label = multi_class_label mod 3
      in (mask_label, gender_label, age_label))"

text \<open>The label of \<^verbatim>\<open>MaskLabelDataset.__getitem__\<close>: \<^verbatim>\<open>gender_label * 3 + age_label\<close>.\<close>

definition gender_age_label :: "int \<Rightarrow> int \<Rightarrow> int" where
  "gender_age_label gender_label age_label = gender_label * 3 + age_label"

section \<open>Errors, lists and the file system\<close>

definition err_bind :: "py_error + 'a \<Rightarrow> ('a \<Rightarrow> py_error + 'b) \<Rightarrow> py_error + 'b" where
  "err_bind r f = (case r of Inl e \<Rightarrow> Inl e | Inr v \<Rightarrow> f v)"

text \<open>\<^verbatim>\<open>xs[i]\<close>: a negative index counts from the end, an index out of range raises.\<close>

definition py_index :: "'a list \<Rightarrow> int \<Rightarrow> py_error + 'a" where
  "py_index xs i =
     (if 0 \<le> i \<and> i < int (length xs) then Inr (xs ! nat i)
      else if i < 0 \<and> - int (length xs) \<le> i then Inr (xs ! nat (int (length xs) + i))
      else Inl IndexError)"


subsection \<open>Floating-point numbers\<close>

text \<open>
  A Python float is a double. A finite double is an integer mantissa of at most 53
  bits times a power of two, the exponent being at least -1074; \<open>Double m e\<close> stands
  for \<open>m * 2 ^ e\<close>. The infinities and the NaNs have no representation: no field of a
  dataset holds one here. A result of magnitude \<open>2 ^ 1024\<close> or more stands for the
  infinity the machine gives, and \<open>is_inf\<close> recognises it.
\<close>

datatype double = Double (mantissa: int) (exponent: int)


definition is_inf :: "double \<Rightarrow> bool" where
  "is_inf d = (mantissa d \<noteq> 0 \<and> 1024 < bitlen \<bar>mantissa d\<bar> + exponent d)"


text \<open>
  Every operation gives the double nearest to the exact result, a tie going to the
  even mantissa. \<open>round_half_even m k\<close> drops the last \<open>k\<close> bits of \<open>m\<close> that way, and
  \<open>round_double m e\<close> rounds \<open>m * 2 ^ e\<close>: it drops the bits beyond 53 and those
  below the exponent -1074.
\<close>

definition round_half_even :: "int \<Rightarrow> nat \<Rightarrow> int" where
  "round_half_even m k =
     (let q = m div 2 ^ k; r = m mod 2 ^ k; half = 2 ^ (k - 1)
      in if half < r \<or> (r = half \<and> odd q) then q + 1 else q)"

definition round_double :: "int \<Rightarrow> int \<Rightarrow> double" where
  "round_double m e =
     (let k = max (bitlen \<bar>m\<bar> - 53) (- 1074 - e)
      in if k \<le> 0 then Double m e
         else Double (sgn m * round_half_even \<bar>m\<bar> (nat k)) (e + k))"

definition double_mul :: "double \<Rightarrow> double \<Rightarrow> double" where
  "double_mul a b = round_double (mantissa a * mantissa b) (exponent a + exponent b)"

definition double_add :: "double \<Rightarrow> double \<Rightarrow> double" where
  "double_add a b =
     (let e = min (exponent a) (exponent b)
      in round_double
           (mantissa a * 2 ^ nat (exponent a - e) + mantissa b * 2 ^ nat (exponent b - e)) e)"

definition double_sub :: "double \<Rightarrow> double \<Rightarrow> double" where
  "double_sub a b = double_add a (Double (- mantissa b) (exponent b))"

definition double_less :: "double \<Rightarrow> double \<Rightarrow> bool" where
  "double_less a b =
     (let e = min (exponent a) (exponent b)
      in mantissa a * 2 ^ nat (exponent a - e) < mantissa b * 2 ^ nat (exponent b - e))"

text \<open>
  \<^verbatim>\<open>float(n)\<close>, which Python applies to an integer met by a float in a product, a
  sum or a difference: the nearest double, an error when that is infinite.
\<close>

definition py_float_of_int :: "int \<Rightarrow> py_error + double" where
  "py_float_of_int n =
     (let d = round_double n 0 in if is_inf d then Inl OverflowError else Inr d)"

text \<open>\<^verbatim>\<open>int(x)\<close> on a float cuts the fraction off, towards zero.\<close>

definition double_trunc :: "double \<Rightarrow> int" where
  "double_trunc d =
     (if 0 \<le> exponent d then mantissa d * 2 ^ nat (exponent d)
      else sgn (mantissa d) * (\<bar>mantissa d\<bar> div 2 ^ nat (- exponent d)))"

definition py_int_of_float :: "double \<Rightarrow> py_error + int" where
  "py_int_of_float d = (if is_inf d then Inl OverflowError else Inr (double_trunc d))"

text \<open>\<^verbatim>\<open>math.floor(x)\<close>, which \<^verbatim>\<open>random.choices\<close> uses.\<close>

definition double_floor :: "double \<Rightarrow> int" where
  "double_floor d =
     (if 0 \<le> exponent d then mantissa d * 2 ^ nat (exponent d)
      else mantissa d div 2 ^ nat (- exponent d))"

definition py_floor :: "double \<Rightarrow> py_error + int" where
  "py_floor d = (if is_inf d then Inl OverflowError else Inr (double_floor d))"

text \<open>
  \<^verbatim>\<open>random.random()\<close> gives 53 random bits divided by \<open>2 ^ 53\<close>. A source of
  randomness \<open>rnd\<close> gives the bits of the i-th call as the integer \<open>rnd i\<close>, of
  which the last 53 bits count.
\<close>

definition random_value :: "int \<Rightarrow> double" where
  "random_value bits = Double (bits mod 2 ^ 53) (- 53)"

text \<open>The doubles that Python writes 0.2, 0.4 and 0.5.\<close>

definition one_fifth :: double where
  "one_fifth = Double 3602879701896397 (- 54)"


definition one_half :: double where
  "one_half = Double 1 (- 1)"

text \<open>The elements of a list passed through a function that may raise, in order.\<close>

fun err_map :: "('a \<Rightarrow> py_error + 'b) \<Rightarrow> 'a list \<Rightarrow> py_error + 'b list" where
  "err_map f [] = Inr []"
| "err_map f (x # xs) =
     err_bind (f x) (\<lambda>y. err_bind (err_map f xs) (\<lambda>ys. Inr (y # ys)))"

subsection \<open>The file system\<close>

text \<open>
  A path is the list of its components, so \<^verbatim>\<open>os.path.join(data_dir, profile, file_name)\<close>
  appends two components (names returned by \<^verbatim>\<open>os.listdir\<close> hold no separator). The
  file system is what \<^verbatim>\<open>os.listdir\<close> answers: the entries of a directory in listing
  order, or nothing when the path is not a directory.
\<close>

type_synonym path = "string list"

type_synonym filesystem = "path \<Rightarrow> string list option"

definition os_path_join :: "path \<Rightarrow> string list \<Rightarrow> path" where
  "os_path_join a ps = a @ ps"

definition os_listdir :: "filesystem \<Rightarrow> path \<Rightarrow> py_error + string list" where
  "os_listdir fs p = (case fs p of None \<Rightarrow> Inl OSError | Some entries \<Rightarrow> Inr entries)"

text \<open>
  \<^verbatim>\<open>os.path.splitext\<close> on a file name: the extension starts at the last dot, unless
  only dots come before it.
\<close>

definition splitext :: "string \<Rightarrow> string \<times> string" where
  "splitext p =
     (let r = rev p;
          ext = rev (takeWhile (\<lambda>c. c \<noteq> CHR ''.'') r);
          rest = dropWhile (\<lambda>c. c \<noteq> CHR ''.'') r
      in case rest of
           [] \<Rightarrow> (p, [])
         | dot # root_rev \<Rightarrow>
             if list_ex (\<lambda>c. c \<noteq> CHR ''.'') root_rev then (rev root_rev, dot # ext)
             else (p, []))"

section \<open>MaskBaseDataset\<close>

definition file_names :: "(string \<times> MaskLabels) list" where
  "file_names =
     [(''mask1'', MASK), (''mask2'', MASK), (''mask3'', MASK), (''mask4'', MASK),
      (''mask5'', MASK), (''incorrect_mask'', INCORRECT), (''normal'', NORMAL)]"

text \<open>
  \<^verbatim>\<open>image_paths\<close>, \<^verbatim>\<open>mask_labels\<close>, \<^verbatim>\<open>gender_labels\<close> and \<^verbatim>\<open>age_labels\<close> are
  attributes of the class, not of the instance: \<^verbatim>\<open>setup\<close> only ever appends to them
  through \<^verbatim>\<open>self\<close>, so every instance of the class and of its subclasses reads and
  extends the same four lists. They are the record \<open>class_lists\<close>, passed to and
  returned by each method that touches them. When a method raises, the model gives
  the error only.
\<close>

record class_lists =
  image_paths :: "path list"
  mask_labels :: "MaskLabels list"
  gender_labels :: "GenderLabels list"
  age_labels :: "AgeLabels list"

definition empty_lists :: class_lists where
  "empty_lists = \<lparr>image_paths = [], mask_labels = [], gender_labels = [], age_labels = []\<rparr>"

text \<open>
  The fields of an instance. \<^verbatim>\<open>mean\<close> and \<^verbatim>\<open>std\<close> are left out: with the values
  the constructor is given, \<^verbatim>\<open>calc_statistics\<close> does nothing.
\<close>

record ('img, 'tensor) MaskBaseDataset =
  data_dir :: path
  val_ratio :: double
  transform :: "('img \<Rightarrow> 'tensor) option"

text \<open>Lines 177 to 180 of \<^verbatim>\<open>setup\<close>: the labels read from the name of the directory.\<close>

definition profile_labels :: "nat \<Rightarrow> string \<Rightarrow> py_error + (GenderLabels \<times> AgeLabels)" where
  "profile_labels max_digits profile =
     (case py_split CHR ''_'' profile of
        [ident, gender, race, age] \<Rightarrow>
          err_bind (GenderLabels_from_str gender) (\<lambda>gender_label.
          err_bind (AgeLabels_from_number max_digits (PyStr age)) (\<lambda>age_label.
          Inr (gender_label, age_label)))
      | _ \<Rightarrow> Inl UnpackValueError)"

definition append_sample ::
  "class_lists \<Rightarrow> path \<Rightarrow> MaskLabels \<Rightarrow> GenderLabels \<Rightarrow> AgeLabels \<Rightarrow> class_lists" where
  "append_sample cls img_path mask_label gender_label age_label =
     cls\<lparr>image_paths := image_paths cls @ [img_path],
         mask_labels := mask_labels cls @ [mask_label],
         gender_labels := gender_labels cls @ [gender_label],
         age_labels := age_labels cls @ [age_label]\<rparr>"

text \<open>The inner loop of \<^verbatim>\<open>MaskBaseDataset.setup\<close>, over the files of one directory.\<close>

fun scan_files :: "nat \<Rightarrow> path \<Rightarrow> string \<Rightarrow> class_lists \<Rightarrow> string list \<Rightarrow> py_error + class_lists" where
  "scan_files max_digits dir profile cls [] = Inr cls"
| "scan_files max_digits dir profile cls (file_name # rest) =
     (case map_of file_names (fst (splitext file_name)) of
        None \<Rightarrow> scan_files max_digits dir profile cls rest
      | Some mask_label \<Rightarrow>
          (case profile_labels max_digits profile of
             Inl e \<Rightarrow> Inl e
           | Inr (gender_label, age_label) \<Rightarrow>
               scan_files max_digits dir profile
                 (append_sample cls (os_path_join dir [profile, file_name])
                    mask_label gender_label age_label)
                 rest))"

text \<open>The outer loop, over the entries of \<^verbatim>\<open>data_dir\<close>.\<close>

fun scan_profiles ::
  "nat \<Rightarrow> filesystem \<Rightarrow> path \<Rightarrow> class_lists \<Rightarrow> string list \<Rightarrow> py_error + class_lists" where
  "scan_profiles max_digits fs dir cls [] = Inr cls"
| "scan_profiles max_digits fs dir cls (profile # rest) =
     (if startswith profile ''.'' then scan_profiles max_digits fs dir cls rest
      else
        (case os_listdir fs (os_path_join dir [profile]) of
           Inl e \<Rightarrow> Inl e
         | Inr files \<Rightarrow>
             (case scan_files max_digits dir profile cls files of
                Inl e \<Rightarrow> Inl e
              | Inr cls' \<Rightarrow> scan_profiles max_digits fs dir cls' rest)))"

definition MaskBaseDataset_setup ::
  "nat \<Rightarrow> filesystem \<Rightarrow> class_lists \<Rightarrow> ('img, 'tensor) MaskBaseDataset \<Rightarrow> py_error + class_lists" where
  "MaskBaseDataset_setup max_digits fs cls self =
     err_bind (os_listdir fs (data_dir self)) (\<lambda>profiles.
     scan_profiles max_digits fs (data_dir self) cls profiles)"

text \<open>\<^verbatim>\<open>__init__\<close>: the new instance and the class lists after its scan.\<close>

definition MaskBaseDataset_init ::
  "nat \<Rightarrow> filesystem \<Rightarrow> class_lists \<Rightarrow> path \<Rightarrow> double
     \<Rightarrow> py_error + (class_lists \<times> ('img, 'tensor) MaskBaseDataset)" where
  "MaskBaseDataset_init max_digits fs cls dir ratio =
     (let self = \<lparr>data_dir = dir, val_ratio = ratio, transform = None\<rparr>
      in err_bind (MaskBaseDataset_setup max_digits fs cls self) (\<lambda>cls'. Inr (cls', self)))"

definition set_transform ::
  "('img, 'tensor) MaskBaseDataset \<Rightarrow> ('img \<Rightarrow> 'tensor) \<Rightarrow> ('img, 'tensor) MaskBaseDataset" where
  "set_transform self t = self\<lparr>transform := Some t\<rparr>"

definition MaskBaseDataset_len :: "class_lists \<Rightarrow> ('img, 'tensor) MaskBaseDataset \<Rightarrow> nat" where
  "MaskBaseDataset_len cls self = length (image_paths cls)"

text \<open>
  \<^verbatim>\<open>read_image\<close>: \<^verbatim>\<open>Image.open\<close> is the parameter \<open>image_open\<close>, which answers
  nothing for a path it cannot open.
\<close>

definition read_image :: "(path \<Rightarrow> 'img option) \<Rightarrow> class_lists \<Rightarrow> int \<Rightarrow> py_error + 'img" where
  "read_image image_open cls index =
     err_bind (py_index (image_paths cls) index) (\<lambda>image_path.
     case image_open image_path of None \<Rightarrow> Inl OSError | Some img \<Rightarrow> Inr img)"

definition MaskBaseDataset_getitem ::
  "(path \<Rightarrow> 'img option) \<Rightarrow> class_lists \<Rightarrow> ('img, 'tensor) MaskBaseDataset \<Rightarrow> int
     \<Rightarrow> py_error + ('tensor \<times> int)" where
  "MaskBaseDataset_getitem image_open cls self index =
     (case transform self of
        None \<Rightarrow> Inl AssertionError
      | Some t \<Rightarrow>
          err_bind (read_image image_open cls index) (\<lambda>img.
          err_bind (py_index (mask_labels cls) index) (\<lambda>mask_label.
          err_bind (py_index (gender_labels cls) index) (\<lambda>gender_label.
          err_bind (py_index (age_labels cls) index) (\<lambda>age_label.
          let multi_class_label =
                encode_multi_class (mask_value mask_label) (gender_value gender_label)
                  (age_value age_label)
          in Inr (t img, multi_class_label))))))"

subsection \<open>Random-sample split\<close>



text \<open>
  \<^verbatim>\<open>int(n * ratio)\<close> for an integer \<open>n\<close> and a float: the integer becomes a float,
  the product is rounded to a double and its fraction cut off.
\<close>

definition int_of_scaled :: "nat \<Rightarrow> double \<Rightarrow> py_error + int" where
  "int_of_scaled n ratio =
     err_bind (py_float_of_int (int n)) (\<lambda>x. py_int_of_float (double_mul x ratio))"


section \<open>MaskSplitByProfileDataset\<close>

text \<open>
  \<^verbatim>\<open>random.choices(range(n), k=k)\<close> turns \<open>n\<close> into a float and is then
  \<^verbatim>\<open>[population[floor(random() * n)] for i in repeat(None, k)]\<close>: each draw is the
  floor of a double product, and indexing the range raises when the index is not
  below \<open>n\<close>. A negative \<open>k\<close> draws nothing.
\<close>

definition random_choices :: "(nat \<Rightarrow> int) \<Rightarrow> nat \<Rightarrow> int \<Rightarrow> py_error + nat list" where
  "random_choices rnd n k =
     err_bind (py_float_of_int (int n)) (\<lambda>nf.
     err_map (\<lambda>i. err_bind (py_floor (double_mul (random_value (rnd i)) nf))
                     (\<lambda>idx. py_index [0..<n] idx))
       [0..<nat k])"

text \<open>The dictionary returned by \<^verbatim>\<open>_split_profile\<close>, in the order of its keys.\<close>

definition split_profile ::
  "(nat \<Rightarrow> int) \<Rightarrow> string list \<Rightarrow> double \<Rightarrow> py_error + (string \<times> nat set) list" where
  "split_profile rnd profiles ratio =
     (let len = length profiles
      in err_bind (int_of_scaled len ratio) (\<lambda>n_val.
         err_bind (random_choices rnd len n_val) (\<lambda>draws.
         let val_indices = set draws;
             train_indices = set [0..<len] - val_indices
         in Inr [(''train'', train_indices), (''val'', val_indices)])))"

text \<open>
  \<^verbatim>\<open>self.indices\<close> is a \<^verbatim>\<open>defaultdict(list)\<close>: an association list in the order
  the keys were first used, where a missing key reads as the empty list.
\<close>

fun dd_append :: "(string \<times> nat list) list \<Rightarrow> string \<Rightarrow> nat \<Rightarrow> (string \<times> nat list) list" where
  "dd_append [] k v = [(k, [v])]"
| "dd_append ((k', vs) # m) k v =
     (if k' = k then (k', vs @ [v]) # m else (k', vs) # dd_append m k v)"

definition dd_get :: "(string \<times> nat list) list \<Rightarrow> string \<Rightarrow> nat list" where
  "dd_get m k = (case map_of m k of None \<Rightarrow> [] | Some vs \<Rightarrow> vs)"

record ('img, 'tensor) MaskSplitByProfileDataset = "('img, 'tensor) MaskBaseDataset" +
  indices :: "(string \<times> nat list) list"

text \<open>
  The state of the loops of \<^verbatim>\<open>MaskSplitByProfileDataset.setup\<close>: the class lists,
  \<^verbatim>\<open>self.indices\<close> and \<^verbatim>\<open>cnt\<close>.
\<close>

type_synonym split_state = "class_lists \<times> (string \<times> nat list) list \<times> nat"

fun split_scan_files ::
  "nat \<Rightarrow> path \<Rightarrow> string \<Rightarrow> string \<Rightarrow> split_state \<Rightarrow> string list \<Rightarrow> py_error + split_state" where
  "split_scan_files max_digits dir profile phase st [] = Inr st"
| "split_scan_files max_digits dir profile phase (cls, ind, cnt) (file_name # rest) =
     (case map_of file_names (fst (splitext file_name)) of
        None \<Rightarrow> split_scan_files max_digits dir profile phase (cls, ind, cnt) rest
      | Some mask_label \<Rightarrow>
          (case profile_labels max_digits profile of
             Inl e \<Rightarrow> Inl e
           | Inr (gender_label, age_label) \<Rightarrow>
               split_scan_files max_digits dir profile phase
                 (append_sample cls (os_path_join dir [profile, file_name])
                    mask_label gender_label age_label,
                  dd_append ind phase cnt,
                  cnt + 1)
                 rest))"

fun split_scan_indices ::
  "nat \<Rightarrow> filesystem \<Rightarrow> path \<Rightarrow> string list \<Rightarrow> string \<Rightarrow> split_state \<Rightarrow> nat list
     \<Rightarrow> py_error + split_state" where
  "split_scan_indices max_digits fs dir profiles phase st [] = Inr st"
| "split_scan_indices max_digits fs dir profiles phase st (idx # rest) =
     (case py_index profiles (int idx) of
        Inl e \<Rightarrow> Inl e
      | Inr profile \<Rightarrow>
          (case os_listdir fs (os_path_join dir [profile]) of
             Inl e \<Rightarrow> Inl e
           | Inr files \<Rightarrow>
               (case split_scan_files max_digits dir profile phase st files of
                  Inl e \<Rightarrow> Inl e
                | Inr st' \<Rightarrow> split_scan_indices max_digits fs dir profiles phase st' rest)))"

text \<open>
  The loop over the phases. A Python set is iterated in an order of its own; \<open>iter\<close>
  gives the order in which the elements of a set come.
\<close>

fun split_scan_phases ::
  "nat \<Rightarrow> filesystem \<Rightarrow> path \<Rightarrow> string list \<Rightarrow> (nat set \<Rightarrow> nat list) \<Rightarrow> split_state
     \<Rightarrow> (string \<times> nat set) list \<Rightarrow> py_error + split_state" where
  "split_scan_phases max_digits fs dir profiles iter st [] = Inr st"
| "split_scan_phases max_digits fs dir profiles iter st ((phase, idxs) # rest) =
     (case split_scan_indices max_digits fs dir profiles phase st (iter idxs) of
        Inl e \<Rightarrow> Inl e
      | Inr st' \<Rightarrow> split_scan_phases max_digits fs dir profiles iter st' rest)"

definition MaskSplitByProfileDataset_setup ::
  "nat \<Rightarrow> filesystem \<Rightarrow> (nat \<Rightarrow> int) \<Rightarrow> (nat set \<Rightarrow> nat list) \<Rightarrow> class_lists
     \<Rightarrow> ('img, 'tensor) MaskSplitByProfileDataset
     \<Rightarrow> py_error + (class_lists \<times> ('img, 'tensor) MaskSplitByProfileDataset)" where
  "MaskSplitByProfileDataset_setup max_digits fs rnd iter cls self =
     err_bind (os_listdir fs (data_dir self)) (\<lambda>entries.
     let profiles = filter (\<lambda>profile. \<not> startswith profile ''.'') entries
     in err_bind (split_profile rnd profiles (val_ratio self)) (\<lambda>split_profiles.
        err_bind
          (split_scan_phases max_digits fs (data_dir self) profiles iter (cls, indices self, 0)
             split_profiles)
          (\<lambda>(cls', ind', cnt). Inr (cls', self\<lparr>indices := ind'\<rparr>))))"

definition MaskSplitByProfileDataset_init ::
  "nat \<Rightarrow> filesystem \<Rightarrow> (nat \<Rightarrow> int) \<Rightarrow> (nat set \<Rightarrow> nat list) \<Rightarrow> class_lists \<Rightarrow> path \<Rightarrow> double
     \<Rightarrow> py_error + (class_lists \<times> ('img, 'tensor) MaskSplitByProfileDataset)" where
  "MaskSplitByProfileDataset_init max_digits fs rnd iter cls dir ratio =
     MaskSplitByProfileDataset_setup max_digits fs rnd iter cls
       \<lparr>data_dir = dir, val_ratio = ratio, transform = None, indices = []\<rparr>"

text \<open>The directory a sample was read from: the component before the file name.\<close>

definition subject_of :: "path \<Rightarrow> string" where
  "subject_of p = last (butlast p)"

section \<open>MaskLabelDataset\<close>

definition mask_label_names :: "(string \<times> MaskLabels) list" where
  "mask_label_names = [(''mask'', MASK), (''incorrect_mask'', INCORRECT), (''normal'', NORMAL)]"

record ('img, 'tensor) MaskLabelDataset = "('img, 'tensor) MaskSplitByProfileDataset" +
  self_mask_label :: string

definition MaskLabelDataset_getitem ::
  "(path \<Rightarrow> 'img option) \<Rightarrow> class_lists \<Rightarrow> ('img, 'tensor) MaskLabelDataset \<Rightarrow> int
     \<Rightarrow> py_error + ('tensor \<times> int)" where
  "MaskLabelDataset_getitem image_open cls self index =
     (case transform self of
        None \<Rightarrow> Inl AssertionError
      | Some t \<Rightarrow>
          err_bind (read_image image_open cls index) (\<lambda>img.
          err_bind (case map_of mask_label_names (self_mask_label self) of
                      None \<Rightarrow> Inl KeyError | Some l \<Rightarrow> Inr l) (\<lambda>mask_label.
          err_bind (py_index (gender_labels cls) index) (\<lambda>gender_label.
          err_bind (py_index (age_labels cls) index) (\<lambda>age_label.
          let multi_class_label =
                gender_age_label (gender_value gender_label) (age_value age_label)
          in Inr (t img, multi_class_label))))))"

section \<open>EvalDataset and ModelEvalDataset\<close>

text \<open>
  \<^verbatim>\<open>random.choices([True, False], weights=[w0, w1])\<close>: the weights are summed,
  a sum that is not above zero raises, and with \<open>u\<close> the value of \<^verbatim>\<open>random()\<close> the
  answer is the one-element list holding \<^verbatim>\<open>True\<close> when the product of \<open>u\<close> and the
  sum is below \<open>w0\<close>, \<^verbatim>\<open>False\<close> otherwise. Sum and product are doubles.
\<close>

definition weighted_choice :: "double \<Rightarrow> double \<Rightarrow> double \<Rightarrow> py_error + bool list" where
  "weighted_choice u w0 w1 =
     (let total = double_add w0 w1
      in if \<not> double_less (Double 0 0) total then Inl WeightsValueError
         else Inr [if double_less (double_mul u total) w0 then True else False])"

text \<open>
  The weights of the sampling scan, \<^verbatim>\<open>[self.data_ratio, 1 - self.data_ratio]\<close>, and
  its draw for the random bits \<open>bits\<close>.
\<close>

definition sampling_draw :: "int \<Rightarrow> double \<Rightarrow> py_error + bool list" where
  "sampling_draw bits ratio =
     weighted_choice (random_value bits) ratio (double_sub (Double 1 0) ratio)"

text \<open>The truth value of a list, as \<^verbatim>\<open>not is_in\<close> takes it: a list is true unless empty.\<close>

definition py_bool :: "'a list \<Rightarrow> bool" where
  "py_bool xs = (xs \<noteq> [])"

record ('img, 'tensor) EvalDataset =
  eval_data_dir :: path
  eval_transform :: "('img \<Rightarrow> 'tensor) option"
  data_ratio :: double

text \<open>
  The loops of \<^verbatim>\<open>EvalDataset.setup\<close>. The state is the class lists of
  \<^verbatim>\<open>EvalDataset\<close> and the number of calls of \<^verbatim>\<open>random()\<close> made so far.
\<close>

fun eval_scan_files ::
  "nat \<Rightarrow> (nat \<Rightarrow> int) \<Rightarrow> double \<Rightarrow> path \<Rightarrow> string \<Rightarrow> class_lists \<times> nat \<Rightarrow> string list
     \<Rightarrow> py_error + (class_lists \<times> nat)" where
  "eval_scan_files max_digits rnd ratio dir profile st [] = Inr st"
| "eval_scan_files max_digits rnd ratio dir profile (cls, k) (file_name # rest) =
     (case map_of file_names (fst (splitext file_name)) of
        None \<Rightarrow> eval_scan_files max_digits rnd ratio dir profile (cls, k) rest
      | Some mask_label \<Rightarrow>
          (case sampling_draw (rnd k) ratio of
             Inl e \<Rightarrow> Inl e
           | Inr is_in \<Rightarrow>
               if \<not> py_bool is_in then eval_scan_files max_digits rnd ratio dir profile (cls, k + 1) rest
               else
                 (case profile_labels max_digits profile of
                    Inl e \<Rightarrow> Inl e
                  | Inr (gender_label, age_label) \<Rightarrow>
                      eval_scan_files max_digits rnd ratio dir profile
                        (append_sample cls (os_path_join dir [profile, file_name])
                           mask_label gender_label age_label,
                         k + 1)
                        rest)))"

fun eval_scan_profiles ::
  "nat \<Rightarrow> filesystem \<Rightarrow> (nat \<Rightarrow> int) \<Rightarrow> double \<Rightarrow> path \<Rightarrow> class_lists \<times> nat \<Rightarrow> string list
     \<Rightarrow> py_error + (class_lists \<times> nat)" where
  "eval_scan_profiles max_digits fs rnd ratio dir st [] = Inr st"
| "eval_scan_profiles max_digits fs rnd ratio dir st (profile # rest) =
     (if startswith profile ''.'' then eval_scan_profiles max_digits fs rnd ratio dir st rest
      else
        (case os_listdir fs (os_path_join dir [profile]) of
           Inl e \<Rightarrow> Inl e
         | Inr files \<Rightarrow>
             (case eval_scan_files max_digits rnd ratio dir profile st files of
                Inl e \<Rightarrow> Inl e
              | Inr st' \<Rightarrow> eval_scan_profiles max_digits fs rnd ratio dir st' rest)))"

definition EvalDataset_setup ::
  "nat \<Rightarrow> filesystem \<Rightarrow> (nat \<Rightarrow> int) \<Rightarrow> class_lists \<Rightarrow> ('img, 'tensor) EvalDataset
     \<Rightarrow> py_error + class_lists" where
  "EvalDataset_setup max_digits fs rnd cls self =
     err_bind (os_listdir fs (eval_data_dir self)) (\<lambda>profiles.
     err_bind (eval_scan_profiles max_digits fs rnd (data_ratio self) (eval_data_dir self) (cls, 0) profiles)
       (\<lambda>(cls', k). Inr cls'))"

text \<open>
  \<^verbatim>\<open>ModelEvalDataset.setup\<close> keeps the files whose stem starts with \<^verbatim>\<open>self.label\<close>
  and appends no mask label.
\<close>

record ('img, 'tensor) ModelEvalDataset = "('img, 'tensor) EvalDataset" +
  label :: string

definition append_unmasked :: "class_lists \<Rightarrow> path \<Rightarrow> GenderLabels \<Rightarrow> AgeLabels \<Rightarrow> class_lists" where
  "append_unmasked cls img_path gender_label age_label =
     cls\<lparr>image_paths := image_paths cls @ [img_path],
         gender_labels := gender_labels cls @ [gender_label],
         age_labels := age_labels cls @ [age_label]\<rparr>"

fun model_eval_scan_files ::
  "nat \<Rightarrow> (nat \<Rightarrow> int) \<Rightarrow> double \<Rightarrow> string \<Rightarrow> path \<Rightarrow> string \<Rightarrow> class_lists \<times> nat \<Rightarrow> string list
     \<Rightarrow> py_error + (class_lists \<times> nat)" where
  "model_eval_scan_files max_digits rnd ratio lbl dir profile st [] = Inr st"
| "model_eval_scan_files max_digits rnd ratio lbl dir profile (cls, k) (file_name # rest) =
     (if \<not> startswith (fst (splitext file_name)) lbl
      then model_eval_scan_files max_digits rnd ratio lbl dir profile (cls, k) rest
      else
        (case sampling_draw (rnd k) ratio of
           Inl e \<Rightarrow> Inl e
         | Inr is_in \<Rightarrow>
             if \<not> py_bool is_in
             then model_eval_scan_files max_digits rnd ratio lbl dir profile (cls, k + 1) rest
             else
               (case profile_labels max_digits profile of
                  Inl e \<Rightarrow> Inl e
                | Inr (gender_label, age_label) \<Rightarrow>
                    model_eval_scan_files max_digits rnd ratio lbl dir profile
                      (append_unmasked cls (os_path_join dir [profile, file_name])
                         gender_label age_label,
                       k + 1)
                      rest)))"

fun model_eval_scan_profiles ::
  "nat \<Rightarrow> filesystem \<Rightarrow> (nat \<Rightarrow> int) \<Rightarrow> double \<Rightarrow> string \<Rightarrow> path \<Rightarrow> class_lists \<times> nat \<Rightarrow> string list
     \<Rightarrow> py_error + (class_lists \<times> nat)" where
  "model_eval_scan_profiles max_digits fs rnd ratio lbl dir st [] = Inr st"
| "model_eval_scan_profiles max_digits fs rnd ratio lbl dir st (profile # rest) =
     (if startswith profile ''.'' then model_eval_scan_profiles max_digits fs rnd ratio lbl dir st rest
      else
        (case os_listdir fs (os_path_join dir [profile]) of
           Inl e \<Rightarrow> Inl e
         | Inr files \<Rightarrow>
             (case model_eval_scan_files max_digits rnd ratio lbl dir profile st files of
                Inl e \<Rightarrow> Inl e
              | Inr st' \<Rightarrow> model_eval_scan_profiles max_digits fs rnd ratio lbl dir st' rest)))"

definition ModelEvalDataset_setup ::
  "nat \<Rightarrow> filesystem \<Rightarrow> (nat \<Rightarrow> int) \<Rightarrow> class_lists \<Rightarrow> ('img, 'tensor) ModelEvalDataset
     \<Rightarrow> py_error + class_lists" where
  "ModelEvalDataset_setup max_digits fs rnd cls self =
     err_bind (os_listdir fs (eval_data_dir self)) (\<lambda>profiles.
     err_bind (model_eval_scan_profiles max_digits fs rnd (data_ratio self) (label self)
                 (eval_data_dir self) (cls, 0) profiles)
       (\<lambda>(cls', k). Inr cls'))"

section \<open>Auxiliary definitions and example corpora\<close>

text \<open>The class lists \<open>cls\<close> followed by the samples of \<open>new\<close>.\<close>

definition extend_lists :: "class_lists \<Rightarrow> class_lists \<Rightarrow> class_lists" where
  "extend_lists cls new =
     \<lparr>image_paths = image_paths cls @ image_paths new,
      mask_labels = mask_labels cls @ mask_labels new,
      gender_labels = gender_labels cls @ gender_labels new,
      age_labels = age_labels cls @ age_labels new\<rparr>"

text \<open>
  A corpus of two subjects with three recognised images, a hidden entry and two
  files that are not recognised.
\<close>

definition corpus_two_subjects :: filesystem where
  "corpus_two_subjects = map_of
     [([''data''], [''000001_female_Asian_45'', ''.DS_Store'', ''000002_male_Asian_61'']),
      ([''data'', ''000001_female_Asian_45''],
         [''mask1.jpg'', ''incorrect_mask.png'', ''readme.txt'']),
      ([''data'', ''000002_male_Asian_61''], [''normal.bmp'', ''._mask1.jpg''])]"

definition two_subjects_lists :: class_lists where
  "two_subjects_lists =
     \<lparr>image_paths =
        [[''data'', ''000001_female_Asian_45'', ''mask1.jpg''],
         [''data'', ''000001_female_Asian_45'', ''incorrect_mask.png''],
         [''data'', ''000002_male_Asian_61'', ''normal.bmp'']],
      mask_labels = [MASK, INCORRECT, NORMAL],
      gender_labels = [FEMALE, FEMALE, MALE],
      age_labels = [MIDDLE, MIDDLE, OLD]\<rparr>"

text \<open>A subject of unknown gender, with a recognised image and with a text file only.\<close>

definition corpus_unknown_gender :: filesystem where
  "corpus_unknown_gender = map_of
     [([''data''], [''001_nonbinary_asian_25'']),
      ([''data'', ''001_nonbinary_asian_25''], [''mask1.jpg''])]"

definition corpus_unknown_gender_no_image :: filesystem where
  "corpus_unknown_gender_no_image = map_of
     [([''data''], [''001_nonbinary_asian_25'']),
      ([''data'', ''001_nonbinary_asian_25''], [''readme.txt''])]"


text \<open>
  The class lists after a plain scan of the two subjects followed by a scan that
  visits the second subject first.
\<close>

definition second_scan_lists :: class_lists where
  "second_scan_lists =
     extend_lists two_subjects_lists
       \<lparr>image_paths =
          [[''data'', ''000002_male_Asian_61'', ''normal.bmp''],
           [''data'', ''000001_female_Asian_45'', ''mask1.jpg''],
           [''data'', ''000001_female_Asian_45'', ''incorrect_mask.png'']],
        mask_labels = [NORMAL, MASK, INCORRECT],
        gender_labels = [MALE, FEMALE, FEMALE],
        age_labels = [OLD, MIDDLE, MIDDLE]\<rparr>"

section \<open>Properties of the label encoder\<close>

text \<open>
  C1. For every triple with mask in 0..2, gender in 0..1 and age in 0..2, decoding the
  encoded full-taxonomy label gives the triple back.
\<close>

theorem decode_encode_roundtrip:
  assumes "m \<in> {0, 1, 2}" and "g \<in> {0, 1}" and "a \<in> {0, 1, 2}"
  shows "decode_multi_class (encode_multi_class m g a) = (m, g, a)"
  using assms by (auto simp: decode_multi_class_def encode_multi_class_def)

theorem decode_encode_roundtrip_witness:
  "(2::int) \<in> {0, 1, 2} \<and> (1::int) \<in> {0, 1} \<and> (1::int) \<in> {0, 1, 2}
   \<and> encode_multi_class 2 1 1 = 16
   \<and> decode_multi_class (encode_multi_class 2 1 1) = (2, 1, 1)"
  using decode_encode_roundtrip [of 2 1 1] by (simp add: encode_multi_class_def)

text \<open>
  C6. The full encoding of a valid triple lies in 0..17 and the gender-age encoding
  \<^verbatim>\<open>gender * 3 + age\<close> of \<^verbatim>\<open>MaskLabelDataset.__getitem__\<close> lies in 0..5; every
  integer of either range is the encoding of some valid triple.
\<close>

theorem encode_range_and_onto:
  "(\<forall>m\<in>{0, 1, 2}. \<forall>g\<in>{0, 1}. \<forall>a\<in>{0, 1, 2}.
      0 \<le> encode_multi_class m g a \<and> encode_multi_class m g a < 18)
   \<and> (\<forall>l. 0 \<le> l \<and> l < 18 \<longrightarrow>
          (\<exists>m\<in>{0, 1, 2}. \<exists>g\<in>{0, 1}. \<exists>a\<in>{0, 1, 2}. encode_multi_class m g a = l))
   \<and> (\<forall>g\<in>{0, 1}. \<forall>a\<in>{0, 1, 2}. 0 \<le> gender_age_label g a \<and> gender_age_label g a < 6)
   \<and> (\<forall>l. 0 \<le> l \<and> l < 6 \<longrightarrow> (\<exists>g\<in>{0, 1}. \<exists>a\<in>{0, 1, 2}. gender_age_label g a = l))"
proof (intro conjI allI impI)
  fix l :: int
  assume l: "0 \<le> l \<and> l < 18"
  have d: "l div 6 \<in> {0, 1, 2}" "(l div 3) mod 2 \<in> {0, 1}" "l mod 3 \<in> {0, 1, 2}"
    using l by auto
  have e: "encode_multi_class (l div 6) ((l div 3) mod 2) (l mod 3) = l"
    unfolding encode_multi_class_def by presburger
  show "\<exists>m\<in>{0, 1, 2}. \<exists>g\<in>{0, 1}. \<exists>a\<in>{0, 1, 2}. encode_multi_class m g a = l"
    by (rule bexI [OF _ d(1)], rule bexI [OF _ d(2)], rule bexI [OF _ d(3)], rule e)
next
  fix l :: int
  assume l: "0 \<le> l \<and> l < 6"
  have d: "l div 3 \<in> {0, 1}" "l mod 3 \<in> {0, 1, 2}"
    using l by auto
  have e: "gender_age_label (l div 3) (l mod 3) = l"
    unfolding gender_age_label_def by presburger
  show "\<exists>g\<in>{0, 1}. \<exists>a\<in>{0, 1, 2}. gender_age_label g a = l"
    by (rule bexI [OF _ d(1)], rule bexI [OF _ d(2)], rule e)
qed (auto simp: encode_multi_class_def gender_age_label_def)

theorem encode_range_and_onto_witness:
  "encode_multi_class 2 1 2 = 17
   \<and> 0 \<le> encode_multi_class 2 1 2 \<and> encode_multi_class 2 1 2 < 18
   \<and> (\<exists>m g a. m \<in> {0, 1, 2} \<and> g \<in> {0, 1} \<and> a \<in> {0, 1, 2} \<and> encode_multi_class m g a = 17)
   \<and> gender_age_label 1 2 = 5
   \<and> 0 \<le> gender_age_label 1 2 \<and> gender_age_label 1 2 < 6
   \<and> (\<exists>g a. g \<in> {0, 1} \<and> a \<in> {0, 1, 2} \<and> gender_age_label g a = 5)"
proof -
  note t = encode_range_and_onto
  have "0 \<le> encode_multi_class 2 1 2 \<and> encode_multi_class 2 1 2 < 18"
    using t by simp
  moreover have "\<exists>m\<in>{0, 1, 2}. \<exists>g\<in>{0, 1}. \<exists>a\<in>{0, 1, 2}. encode_multi_class m g a = 17"
    using t by simp
  moreover have "0 \<le> gender_age_label 1 2 \<and> gender_age_label 1 2 < 6"
    using t by simp
  moreover have "\<exists>g\<in>{0, 1}. \<exists>a\<in>{0, 1, 2}. gender_age_label g a = 5"
    using t by simp
  moreover have "encode_multi_class 2 1 2 = 17" "gender_age_label 1 2 = 5"
    by (simp_all add: encode_multi_class_def gender_age_label_def)
  ultimately show ?thesis by blast
qed

section \<open>Properties of the label taxonomy\<close>

subsection \<open>Strings that are no integers\<close>

lemma digits_value_other_char:
  assumes "c \<in> set cs" and "\<not> is_digit c" and "c \<noteq> CHR ''_''"
  shows "digits_value prev acc cs = None"
  using assms(1)
proof (induction cs arbitrary: prev acc)
  case Nil
  then show ?case by simp
next
  case (Cons x xs)
  show ?case
  proof (cases "x = c")
    case True
    then show ?thesis using assms(2,3) by simp
  next
    case False
    then have "c \<in> set xs" using Cons.prems by simp
    then show ?thesis using Cons.IH by simp
  qed
qed

lemma dropWhile_keeps:
  "c \<in> set xs \<Longrightarrow> \<not> P c \<Longrightarrow> c \<in> set (dropWhile P xs)"
  by (induction xs) auto

lemma py_strip_keeps:
  assumes "c \<in> set s" and "\<not> is_space c"
  shows "c \<in> set (py_strip s)"
proof -
  have "c \<in> set (dropWhile is_space s)" using assms by (rule dropWhile_keeps)
  then have "c \<in> set (rev (dropWhile is_space s))" by simp
  then have "c \<in> set (dropWhile is_space (rev (dropWhile is_space s)))"
    using assms(2) by (rule dropWhile_keeps)
  then show ?thesis by (simp add: py_strip_def)
qed

lemma int_of_string_other_char:
  assumes "c \<in> set s" and "\<not> is_space c" and "\<not> is_digit c"
    and "c \<noteq> CHR ''+''" and "c \<noteq> CHR ''-''" and "c \<noteq> CHR ''_''"
  shows "int_of_string max_digits s = None"
proof (cases "too_many_digits max_digits s")
  case True
  then show ?thesis by (simp add: int_of_string_def)
next
  case False
  have mem: "c \<in> set (py_strip s)" using assms(1,2) by (rule py_strip_keeps)
  then obtain x xs where st: "py_strip s = x # xs" by (cases "py_strip s") auto
  have whole: "digits_value False 0 (x # xs) = None"
    using mem assms(3,6) unfolding st by (rule digits_value_other_char)
  have rest: "digits_value False 0 xs = None" if "x \<noteq> c"
  proof -
    have "c \<in> set xs" using mem that by (simp add: st)
    then show ?thesis using assms(3,6) by (rule digits_value_other_char)
  qed
  show ?thesis
    using False whole rest assms(4,5) by (auto simp add: int_of_string_def st)
qed

text \<open>
  C9. \<^verbatim>\<open>AgeLabels.from_number\<close> gives YOUNG for every integer below 30, MIDDLE
  from 30 to 59, OLD from 60 on, and raises its age error for every string that
  \<^verbatim>\<open>int\<close> does not parse; a string that parses is treated as the integer it denotes.
  Among the strings that do not parse are the empty string and every string that
  holds a character other than a digit, a sign, an underscore or a blank.
\<close>

theorem from_number_brackets:
  "(\<forall>n. n < 30 \<longrightarrow> AgeLabels_from_number max_digits (PyInt n) = Inr YOUNG)
   \<and> (\<forall>n. 30 \<le> n \<and> n < 60 \<longrightarrow> AgeLabels_from_number max_digits (PyInt n) = Inr MIDDLE)
   \<and> (\<forall>n. 60 \<le> n \<longrightarrow> AgeLabels_from_number max_digits (PyInt n) = Inr OLD)
   \<and> (\<forall>s. int_of_string max_digits s = None \<longrightarrow>
          AgeLabels_from_number max_digits (PyStr s) = Inl AgeValueError)
   \<and> (\<forall>s n. int_of_string max_digits s = Some n \<longrightarrow>
          AgeLabels_from_number max_digits (PyStr s) = AgeLabels_from_number max_digits (PyInt n))
   \<and> (\<forall>s c. c \<in> set s \<and> \<not> is_space c \<and> \<not> is_digit c
              \<and> c \<noteq> CHR ''+'' \<and> c \<noteq> CHR ''-'' \<and> c \<noteq> CHR ''_'' \<longrightarrow>
          AgeLabels_from_number max_digits (PyStr s) = Inl AgeValueError)
   \<and> AgeLabels_from_number max_digits (PyStr []) = Inl AgeValueError"
proof -
  have "AgeLabels_from_number max_digits (PyStr s) = Inl AgeValueError"
    if "c \<in> set s \<and> \<not> is_space c \<and> \<not> is_digit c
        \<and> c \<noteq> CHR ''+'' \<and> c \<noteq> CHR ''-'' \<and> c \<noteq> CHR ''_''" for s c
    using that int_of_string_other_char [of c s max_digits]
    by (simp add: AgeLabels_from_number_def)
  moreover have "AgeLabels_from_number max_digits (PyStr []) = Inl AgeValueError"
    by (simp add: AgeLabels_from_number_def int_of_string_def py_strip_def too_many_digits_def)
  ultimately show ?thesis
    by (simp add: AgeLabels_from_number_def)
qed

theorem from_number_brackets_witness:
  "AgeLabels_from_number 4300 (PyInt 29) = Inr YOUNG
   \<and> AgeLabels_from_number 4300 (PyInt (- 4)) = Inr YOUNG
   \<and> AgeLabels_from_number 4300 (PyInt 30) = Inr MIDDLE
   \<and> AgeLabels_from_number 4300 (PyInt 59) = Inr MIDDLE
   \<and> AgeLabels_from_number 4300 (PyInt 60) = Inr OLD
   \<and> int_of_string 4300 ''4x'' = None
   \<and> AgeLabels_from_number 4300 (PyStr ''4x'') = Inl AgeValueError
   \<and> int_of_string 4300 [CHR 0x1C, CHR ''5''] = None
   \<and> AgeLabels_from_number 4300 (PyStr [CHR 0x1C, CHR ''5'']) = Inl AgeValueError
   \<and> int_of_string 4300 ''54'' = Some 54
   \<and> AgeLabels_from_number 4300 (PyStr ''54'') = Inr MIDDLE
   \<and> int_of_string 4300 [CHR 0xA0, CHR ''5'', CHR ''\<newline>''] = Some 5
   \<and> AgeLabels_from_number 4300 (PyStr [CHR 0xA0, CHR ''5'', CHR ''\<newline>'']) = Inr YOUNG"
proof -
  note t = from_number_brackets [of 4300]
  have p1: "int_of_string 4300 ''4x'' = None" by code_simp
  have p2: "int_of_string 4300 ''54'' = Some 54" by code_simp
  have p3: "int_of_string 4300 [CHR 0x1C, CHR ''5''] = None" by code_simp
  have p4: "int_of_string 4300 [CHR 0xA0, CHR ''5'', CHR ''\<newline>''] = Some 5" by code_simp
  have "AgeLabels_from_number 4300 (PyInt 29) = Inr YOUNG"
    "AgeLabels_from_number 4300 (PyInt (- 4)) = Inr YOUNG"
    "AgeLabels_from_number 4300 (PyInt 30) = Inr MIDDLE"
    "AgeLabels_from_number 4300 (PyInt 59) = Inr MIDDLE"
    "AgeLabels_from_number 4300 (PyInt 60) = Inr OLD"
    using t by simp_all
  moreover have "AgeLabels_from_number 4300 (PyStr ''4x'') = Inl AgeValueError"
    using t p1 by blast
  moreover have "AgeLabels_from_number 4300 (PyStr [CHR 0x1C, CHR ''5'']) = Inl AgeValueError"
    using t p3 by blast
  moreover have "AgeLabels_from_number 4300 (PyStr ''54'') = Inr MIDDLE"
    using t p2 by simp
  moreover have "AgeLabels_from_number 4300 (PyStr [CHR 0xA0, CHR ''5'', CHR ''\<newline>'']) = Inr YOUNG"
    using t p4 by simp
  ultimately show ?thesis using p1 p2 p3 p4 by blast
qed

section \<open>Properties of the corpus scanner\<close>

subsection \<open>Sequencing of errors\<close>

lemma err_bind_Inl: "err_bind (Inl e) f = Inl e"
  by (simp add: err_bind_def)

lemma err_bind_Inr: "err_bind (Inr v) f = f v"
  by (simp add: err_bind_def)

subsection \<open>A scan appends the same samples whatever the lists hold already\<close>

lemma extend_lists_empty: "extend_lists cls empty_lists = cls"
  by (simp add: extend_lists_def empty_lists_def)

lemma append_sample_extend:
  "append_sample (extend_lists cls c) p m g a = extend_lists cls (append_sample c p m g a)"
  by (simp add: extend_lists_def append_sample_def)

lemma scan_files_extend:
  "scan_files max_digits dir profile (extend_lists cls c) files =
     (case scan_files max_digits dir profile c files of
        Inl e \<Rightarrow> Inl e
      | Inr c' \<Rightarrow> Inr (extend_lists cls c'))"
proof (induction files arbitrary: c)
  case Nil
  show ?case by simp
next
  case (Cons f files)
  show ?case
    by (simp add: Cons.IH append_sample_extend split: option.splits sum.splits prod.splits)
qed

lemma scan_profiles_extend:
  "scan_profiles max_digits fs dir (extend_lists cls c) profiles =
     (case scan_profiles max_digits fs dir c profiles of
        Inl e \<Rightarrow> Inl e
      | Inr c' \<Rightarrow> Inr (extend_lists cls c'))"
proof (induction profiles arbitrary: c)
  case Nil
  show ?case by simp
next
  case (Cons p profiles)
  show ?case
    by (simp add: Cons.IH scan_files_extend split: sum.splits)
qed

lemma setup_extend:
  "MaskBaseDataset_setup max_digits fs cls self =
     (case MaskBaseDataset_setup max_digits fs empty_lists self of
        Inl e \<Rightarrow> Inl e
      | Inr new \<Rightarrow> Inr (extend_lists cls new))"
  using scan_profiles_extend [of max_digits fs "data_dir self" cls empty_lists]
  by (simp add: MaskBaseDataset_setup_def err_bind_def extend_lists_empty split: sum.splits)

subsection \<open>Where a scan stops\<close>

lemma scan_profiles_append:
  "scan_profiles max_digits fs dir cls (pre @ rest) =
     (case scan_profiles max_digits fs dir cls pre of
        Inl e \<Rightarrow> Inl e
      | Inr c \<Rightarrow> scan_profiles max_digits fs dir c rest)"
  by (induction pre arbitrary: cls) (auto split: sum.splits)

lemma scan_files_labels_error:
  assumes "profile_labels max_digits profile = Inl e"
    and "\<exists>f\<in>set files. map_of file_names (fst (splitext f)) \<noteq> None"
  shows "scan_files max_digits dir profile cls files = Inl e"
  using assms(2) by (induction files) (auto simp: assms(1) split: option.splits)

lemma profile_labels_unknown_gender:
  assumes "py_split CHR ''_'' profile = [ident, gender, race, age]"
    and "py_lower gender \<noteq> ''male''" and "py_lower gender \<noteq> ''female''"
  shows "profile_labels max_digits profile = Inl GenderValueError"
  using assms by (simp add: profile_labels_def GenderLabels_from_str_def err_bind_def)

text \<open>
  C8, as the specification states it: any corpus that holds a subject directory of
  unknown gender makes the construction fail. The directory
  \<^verbatim>\<open>001_nonbinary_asian_25\<close> below holds no recognised image; the directory name is
  parsed only when a recognised file is met, so the scan ends without an error and
  without a sample.
\<close>

theorem unknown_gender_without_image_counterexample:
  "GenderLabels_from_str ''nonbinary'' = Inl GenderValueError
   \<and> corpus_unknown_gender_no_image [''data''] = Some [''001_nonbinary_asian_25'']
   \<and> MaskBaseDataset_init 4300 corpus_unknown_gender_no_image empty_lists [''data''] one_fifth =
       Inr (empty_lists,
            \<lparr>data_dir = [''data''], val_ratio = one_fifth, transform = (None :: (unit \<Rightarrow> unit) option)\<rparr>)"
proof -
  have "GenderLabels_from_str ''nonbinary'' = Inl GenderValueError"
    by code_simp
  moreover have "corpus_unknown_gender_no_image [''data''] = Some [''001_nonbinary_asian_25'']"
    by (simp add: corpus_unknown_gender_no_image_def)
  moreover have "MaskBaseDataset_init 4300 corpus_unknown_gender_no_image empty_lists [''data''] one_fifth =
       Inr (empty_lists,
            \<lparr>data_dir = [''data''], val_ratio = one_fifth, transform = (None :: (unit \<Rightarrow> unit) option)\<rparr>)"
    by code_simp
  ultimately show ?thesis by blast
qed

text \<open>
  C8, amended. Let a subject directory that is not hidden have four fields in its name,
  a gender field that in lower case is neither \<^verbatim>\<open>male\<close> nor \<^verbatim>\<open>female\<close>, and at
  least one recognised image file. Then the construction of the dataset fails, and it
  fails with the gender error whenever the scan of the entries listed before that
  directory ends without an error.
\<close>

theorem unknown_gender_rejected:
  assumes "fs dir = Some (pre @ profile # post)"
    and "\<not> startswith profile ''.''"
    and "py_split CHR ''_'' profile = [ident, gender, race, age]"
    and "py_lower gender \<noteq> ''male''" and "py_lower gender \<noteq> ''female''"
    and "fs (os_path_join dir [profile]) = Some files"
    and "\<exists>f\<in>set files. map_of file_names (fst (splitext f)) \<noteq> None"
  shows "(\<exists>e. (MaskBaseDataset_init max_digits fs cls dir ratio
                :: py_error + (class_lists \<times> ('img, 'tensor) MaskBaseDataset)) = Inl e)
         \<and> (\<forall>cls'. scan_profiles max_digits fs dir cls pre = Inr cls' \<longrightarrow>
               (MaskBaseDataset_init max_digits fs cls dir ratio
                  :: py_error + (class_lists \<times> ('img, 'tensor) MaskBaseDataset))
                 = Inl GenderValueError)"
proof -
  have init: "(MaskBaseDataset_init max_digits fs cls dir ratio
                 :: py_error + (class_lists \<times> ('img, 'tensor) MaskBaseDataset)) = Inl e"
    if "scan_profiles max_digits fs dir cls (pre @ profile # post) = Inl e" for e
    using that
    by (simp add: MaskBaseDataset_init_def MaskBaseDataset_setup_def Let_def err_bind_def
          os_listdir_def assms(1))
  have stop: "scan_profiles max_digits fs dir c (profile # post) = Inl GenderValueError" for c
  proof -
    have "scan_files max_digits dir profile c files = Inl GenderValueError"
      using scan_files_labels_error [OF profile_labels_unknown_gender [OF assms(3-5)] assms(7)] .
    then show ?thesis
      using assms(2,6) by (simp add: os_listdir_def)
  qed
  show ?thesis
  proof (cases "scan_profiles max_digits fs dir cls pre")
    case (Inl e)
    then have "scan_profiles max_digits fs dir cls (pre @ profile # post) = Inl e"
      by (simp add: scan_profiles_append)
    then show ?thesis using Inl init by simp
  next
    case (Inr c)
    then have "scan_profiles max_digits fs dir cls (pre @ profile # post) = Inl GenderValueError"
      by (simp only: scan_profiles_append sum.case stop)
    then show ?thesis using init by simp
  qed
qed

theorem unknown_gender_rejected_witness:
  "corpus_unknown_gender [''data''] = Some ([] @ ''001_nonbinary_asian_25'' # [])
   \<and> scan_profiles 4300 corpus_unknown_gender [''data''] empty_lists [] = Inr empty_lists
   \<and> \<not> startswith ''001_nonbinary_asian_25'' ''.''
   \<and> py_split CHR ''_'' ''001_nonbinary_asian_25'' = [''001'', ''nonbinary'', ''asian'', ''25'']
   \<and> py_lower ''nonbinary'' \<noteq> ''male'' \<and> py_lower ''nonbinary'' \<noteq> ''female''
   \<and> corpus_unknown_gender (os_path_join [''data''] [''001_nonbinary_asian_25'']) = Some [''mask1.jpg'']
   \<and> map_of file_names (fst (splitext ''mask1.jpg'')) = Some MASK
   \<and> (MaskBaseDataset_init 4300 corpus_unknown_gender empty_lists [''data''] one_fifth
        :: py_error + (class_lists \<times> (unit, unit) MaskBaseDataset)) = Inl GenderValueError"
proof -
  have h1: "corpus_unknown_gender [''data''] = Some ([] @ ''001_nonbinary_asian_25'' # [])"
    by (simp add: corpus_unknown_gender_def)
  have h2: "scan_profiles 4300 corpus_unknown_gender [''data''] empty_lists [] = Inr empty_lists"
    by simp
  have h3: "\<not> startswith ''001_nonbinary_asian_25'' ''.''"
    by (simp add: startswith_def)
  have h4: "py_split CHR ''_'' ''001_nonbinary_asian_25'' = [''001'', ''nonbinary'', ''asian'', ''25'']"
    by code_simp
  have h5: "py_lower ''nonbinary'' \<noteq> ''male''" and h6: "py_lower ''nonbinary'' \<noteq> ''female''"
    by code_simp+
  have h7: "corpus_unknown_gender (os_path_join [''data''] [''001_nonbinary_asian_25''])
              = Some [''mask1.jpg'']"
    by (simp add: corpus_unknown_gender_def os_path_join_def)
  have h8: "map_of file_names (fst (splitext ''mask1.jpg'')) = Some MASK"
    by code_simp
  have h9: "\<exists>f\<in>set [''mask1.jpg'']. map_of file_names (fst (splitext f)) \<noteq> None"
    using h8 by simp
  show ?thesis
    using unknown_gender_rejected [OF h1 h3 h4 h5 h6 h7 h9, where max_digits = 4300 and cls = empty_lists and ratio = one_fifth]
      h1 h2 h3 h4 h5 h6 h7 h8
    by blast
qed

subsection \<open>The lists are shared\<close>

text \<open>
  C10. The four lists belong to the class. When two datasets are built one after the
  other over the same directory, the second scan appends its samples to the lists
  that hold those of the first, and the length reported by either instance is the
  total of both scans: the length after the first construction plus the number of
  samples one scan of the corpus yields.
\<close>

theorem class_lists_shared:
  assumes "MaskBaseDataset_init max_digits fs cls0 dir r1 = Inr (cls1, d1)"
    and "MaskBaseDataset_init max_digits fs cls1 dir r2 = Inr (cls2, d2)"
  shows "image_paths cls2 = image_paths cls1 @ drop (length (image_paths cls0)) (image_paths cls1)
         \<and> MaskBaseDataset_len cls2 d1 = MaskBaseDataset_len cls2 d2
         \<and> MaskBaseDataset_len cls2 d2 =
             MaskBaseDataset_len cls1 d1 + (MaskBaseDataset_len cls1 d1 - length (image_paths cls0))"
proof -
  let ?s1 = "\<lparr>data_dir = dir, val_ratio = r1, transform = None\<rparr> :: ('a, 'b) MaskBaseDataset"
  let ?s2 = "\<lparr>data_dir = dir, val_ratio = r2, transform = None\<rparr> :: ('c, 'd) MaskBaseDataset"
  have a1: "MaskBaseDataset_setup max_digits fs cls0 ?s1 = Inr cls1"
    using assms(1) by (auto simp: MaskBaseDataset_init_def Let_def err_bind_def split: sum.splits)
  have a2: "MaskBaseDataset_setup max_digits fs cls1 ?s2 = Inr cls2"
    using assms(2) by (auto simp: MaskBaseDataset_init_def Let_def err_bind_def split: sum.splits)
  have same: "MaskBaseDataset_setup max_digits fs empty_lists ?s2 = MaskBaseDataset_setup max_digits fs empty_lists ?s1"
    by (simp add: MaskBaseDataset_setup_def)
  obtain new where n1: "MaskBaseDataset_setup max_digits fs empty_lists ?s1 = Inr new"
    and c1: "cls1 = extend_lists cls0 new"
    using a1 setup_extend [of max_digits fs cls0 ?s1] by (auto split: sum.splits)
  have c2: "cls2 = extend_lists cls1 new"
    using a2 setup_extend [of max_digits fs cls1 ?s2] same n1 by (auto split: sum.splits)
  show ?thesis
    by (simp add: c1 c2 extend_lists_def MaskBaseDataset_len_def)
qed

theorem class_lists_shared_witness:
  "MaskBaseDataset_init 4300 corpus_two_subjects empty_lists [''data''] one_fifth =
     Inr (two_subjects_lists,
          \<lparr>data_dir = [''data''], val_ratio = one_fifth, transform = (None :: (unit \<Rightarrow> unit) option)\<rparr>)
   \<and> MaskBaseDataset_init 4300 corpus_two_subjects two_subjects_lists [''data''] one_fifth =
     Inr (extend_lists two_subjects_lists two_subjects_lists,
          \<lparr>data_dir = [''data''], val_ratio = one_fifth, transform = (None :: (unit \<Rightarrow> unit) option)\<rparr>)
   \<and> MaskBaseDataset_len two_subjects_lists
        \<lparr>data_dir = [''data''], val_ratio = one_fifth, transform = (None :: (unit \<Rightarrow> unit) option)\<rparr> = 3
   \<and> MaskBaseDataset_len (extend_lists two_subjects_lists two_subjects_lists)
        \<lparr>data_dir = [''data''], val_ratio = one_fifth, transform = (None :: (unit \<Rightarrow> unit) option)\<rparr> = 6"
proof -
  let ?d = "\<lparr>data_dir = [''data''], val_ratio = one_fifth, transform = (None :: (unit \<Rightarrow> unit) option)\<rparr>"
  let ?cls2 = "extend_lists two_subjects_lists two_subjects_lists"
  have r1: "MaskBaseDataset_init 4300 corpus_two_subjects empty_lists [''data''] one_fifth =
              Inr (two_subjects_lists, ?d)"
    by code_simp
  have r2: "MaskBaseDataset_init 4300 corpus_two_subjects two_subjects_lists [''data''] one_fifth =
              Inr (?cls2, ?d)"
    by code_simp
  have l1: "MaskBaseDataset_len two_subjects_lists ?d = 3"
    by (simp add: MaskBaseDataset_len_def two_subjects_lists_def)
  have "MaskBaseDataset_len ?cls2 ?d =
          MaskBaseDataset_len two_subjects_lists ?d
            + (MaskBaseDataset_len two_subjects_lists ?d - length (image_paths empty_lists))"
    using class_lists_shared [OF r1 r2] by blast
  then have l2: "MaskBaseDataset_len ?cls2 ?d = 6"
    using l1 by (simp add: empty_lists_def)
  show ?thesis using r1 r2 l1 l2 by blast
qed

section \<open>Properties of the dataset view\<close>

text \<open>
  C7. Reading an item of a dataset whose transform is not set fails with the
  assertion error, at every index; this is the state the constructor leaves. Once a
  transform is set with \<^verbatim>\<open>set_transform\<close>, reading an index at which the four lists
  have an entry and whose image opens gives the transformed image with the encoded
  full-taxonomy label of the entries at that index.
\<close>

theorem getitem_transform:
  "(transform self = None \<longrightarrow>
      MaskBaseDataset_getitem image_open cls self index = Inl AssertionError)
   \<and> (MaskBaseDataset_init max_digits fs cls0 dir ratio = Inr (cls, self) \<longrightarrow>
      MaskBaseDataset_getitem image_open cls self index = Inl AssertionError)
   \<and> (py_index (image_paths cls) index = Inr p \<and> image_open p = Some img
        \<and> py_index (mask_labels cls) index = Inr m
        \<and> py_index (gender_labels cls) index = Inr g
        \<and> py_index (age_labels cls) index = Inr a \<longrightarrow>
      MaskBaseDataset_getitem image_open cls (set_transform self t) index =
        Inr (t img, encode_multi_class (mask_value m) (gender_value g) (age_value a)))"
  by (auto simp: MaskBaseDataset_getitem_def MaskBaseDataset_init_def set_transform_def
        read_image_def err_bind_def Let_def split: sum.splits)

theorem getitem_transform_witness:
  "MaskBaseDataset_init 4300 corpus_two_subjects empty_lists [''data''] one_fifth =
     Inr (two_subjects_lists,
          \<lparr>data_dir = [''data''], val_ratio = one_fifth, transform = (None :: (string \<Rightarrow> nat) option)\<rparr>)
   \<and> MaskBaseDataset_getitem (\<lambda>p. Some (last p)) two_subjects_lists
        \<lparr>data_dir = [''data''], val_ratio = one_fifth, transform = (None :: (string \<Rightarrow> nat) option)\<rparr> 2
       = Inl AssertionError
   \<and> py_index (image_paths two_subjects_lists) 2 = Inr [''data'', ''000002_male_Asian_61'', ''normal.bmp'']
   \<and> py_index (mask_labels two_subjects_lists) 2 = Inr NORMAL
   \<and> py_index (gender_labels two_subjects_lists) 2 = Inr MALE
   \<and> py_index (age_labels two_subjects_lists) 2 = Inr OLD
   \<and> MaskBaseDataset_getitem (\<lambda>p. Some (last p)) two_subjects_lists
        (set_transform
           \<lparr>data_dir = [''data''], val_ratio = one_fifth, transform = (None :: (string \<Rightarrow> nat) option)\<rparr>
           length) 2
       = Inr (10, 14)"
proof -
  let ?self = "\<lparr>data_dir = [''data''], val_ratio = one_fifth, transform = (None :: (string \<Rightarrow> nat) option)\<rparr>"
  let ?open = "\<lambda>p :: path. Some (last p)"
  let ?p = "[''data'', ''000002_male_Asian_61'', ''normal.bmp'']"
  note t = getitem_transform [where self = ?self and image_open = ?open
      and cls = two_subjects_lists and index = 2 and max_digits = 4300 and fs = corpus_two_subjects
      and ?cls0.0 = empty_lists and dir = "[''data'']" and ratio = one_fifth
      and p = ?p and img = "''normal.bmp''" and m = NORMAL and g = MALE and a = OLD
      and t = length]
  have "MaskBaseDataset_setup 4300 corpus_two_subjects empty_lists ?self = Inr two_subjects_lists"
    by code_simp
  then have r: "MaskBaseDataset_init 4300 corpus_two_subjects empty_lists [''data''] one_fifth =
             Inr (two_subjects_lists, ?self)"
    by (simp add: MaskBaseDataset_init_def err_bind_def)
  have i1: "py_index (image_paths two_subjects_lists) 2 = Inr ?p"
    and i2: "py_index (mask_labels two_subjects_lists) 2 = Inr NORMAL"
    and i3: "py_index (gender_labels two_subjects_lists) 2 = Inr MALE"
    and i4: "py_index (age_labels two_subjects_lists) 2 = Inr OLD"
    by (simp_all add: py_index_def two_subjects_lists_def)
  have o: "?open ?p = Some ''normal.bmp''" by simp
  have e: "MaskBaseDataset_getitem ?open two_subjects_lists ?self 2 = Inl AssertionError"
    using t r by blast
  have "MaskBaseDataset_getitem ?open two_subjects_lists (set_transform ?self length) 2 =
          Inr (length ''normal.bmp'',
               encode_multi_class (mask_value NORMAL) (gender_value MALE) (age_value OLD))"
    using t i1 i2 i3 i4 o by blast
  then have v: "MaskBaseDataset_getitem ?open two_subjects_lists (set_transform ?self length) 2 =
          Inr (10, 14)"
    by (simp add: encode_multi_class_def)
  show ?thesis using r e i1 i2 i3 i4 v by blast
qed

section \<open>Properties of the floating-point model\<close>

subsection \<open>Powers of two\<close>





subsection \<open>Rounding\<close>








subsection \<open>Floor, truncation and overflow\<close>








section \<open>Properties of the sampling scan\<close>

text \<open>
  When the two weights \<^verbatim>\<open>data_ratio\<close> and \<^verbatim>\<open>1 - data_ratio\<close> sum to more than
  zero, the draw is a list of one element.
\<close>

lemma sampling_draw_positive:
  assumes "double_less (Double 0 0) (double_add ratio (double_sub (Double 1 0) ratio))"
  shows "\<exists>b. sampling_draw bits ratio = Inr [b]"
  using assms by (simp add: sampling_draw_def weighted_choice_def Let_def)

text \<open>
  The scan of \<^verbatim>\<open>EvalDataset\<close> tests the list, not its element, and a list of one
  element is true: the outcome of the scan is that of the plain scan of
  \<^verbatim>\<open>MaskBaseDataset\<close>, whatever the random numbers are.
\<close>

lemma eval_scan_files_ignores_draws:
  assumes "double_less (Double 0 0) (double_add ratio (double_sub (Double 1 0) ratio))"
  shows "err_bind (eval_scan_files max_digits rnd ratio dir profile (cls, k) files) (\<lambda>(c, k'). Inr c) =
     scan_files max_digits dir profile cls files"
proof (induction files arbitrary: cls k)
  case Nil
  show ?case by (simp add: err_bind_def)
next
  case (Cons f files)
  show ?case
  proof (cases "map_of file_names (fst (splitext f))")
    case None
    then show ?thesis using Cons.IH [of cls k] by simp
  next
    case (Some mask_label)
    from sampling_draw_positive [OF assms] obtain b where
      draw: "sampling_draw (rnd k) ratio = Inr [b]" by blast
    show ?thesis
    proof (cases "profile_labels max_digits profile")
      case (Inl e)
      then show ?thesis
        using Some by (simp add: draw py_bool_def err_bind_def)
    next
      case (Inr labels)
      obtain g a where labels: "labels = (g, a)" by (cases labels)
      show ?thesis
        using Some Inr labels
          Cons.IH [of "append_sample cls (os_path_join dir [profile, f]) mask_label g a" "k + 1"]
        by (simp add: draw py_bool_def)
    qed
  qed
qed

lemma eval_scan_profiles_ignores_draws:
  assumes "double_less (Double 0 0) (double_add ratio (double_sub (Double 1 0) ratio))"
  shows "err_bind (eval_scan_profiles max_digits fs rnd ratio dir (cls, k) profiles) (\<lambda>(c, k'). Inr c) =
     scan_profiles max_digits fs dir cls profiles"
proof (induction profiles arbitrary: cls k)
  case Nil
  show ?case by (simp add: err_bind_def)
next
  case (Cons p profiles)
  show ?case
  proof (cases "startswith p ''.''")
    case True
    then show ?thesis using Cons.IH [of cls k] by simp
  next
    case False
    show ?thesis
    proof (cases "os_listdir fs (os_path_join dir [p])")
      case (Inl e)
      then show ?thesis using False by (simp add: err_bind_def)
    next
      case (Inr files)
      show ?thesis
      proof (cases "eval_scan_files max_digits rnd ratio dir p (cls, k) files")
        case (Inl e)
        have "scan_files max_digits dir p cls files = Inl e"
          using Inl eval_scan_files_ignores_draws [OF assms, of max_digits rnd dir p cls k files]
          by (simp add: err_bind_def)
        then show ?thesis
          using False Inr Inl by (simp add: err_bind_def)
      next
        case st: (Inr st')
        obtain c' k' where st': "st' = (c', k')" by (cases st')
        have "scan_files max_digits dir p cls files = Inr c'"
          using st st' eval_scan_files_ignores_draws [OF assms, of max_digits rnd dir p cls k files]
          by (simp add: err_bind_def)
        then show ?thesis
          using False Inr st st' Cons.IH [of c' k'] by simp
      qed
    qed
  qed
qed

lemma EvalDataset_setup_ignores_draws:
  assumes "double_less (Double 0 0)
             (double_add (data_ratio self) (double_sub (Double 1 0) (data_ratio self)))"
  shows "EvalDataset_setup max_digits fs rnd cls self =
     err_bind (os_listdir fs (eval_data_dir self)) (scan_profiles max_digits fs (eval_data_dir self) cls)"
proof (cases "os_listdir fs (eval_data_dir self)")
  case (Inl e)
  then show ?thesis by (simp add: EvalDataset_setup_def err_bind_def)
next
  case (Inr profiles)
  show ?thesis
    by (simp add: EvalDataset_setup_def Inr err_bind_Inr eval_scan_profiles_ignores_draws [OF assms])
qed

text \<open>
  C5. The specification has each recognised file kept with probability
  \<^verbatim>\<open>data_ratio\<close>, so that for a ratio below 1 some draw leaves a file out. Here the
  ratio is 0.5 and every call of \<^verbatim>\<open>random()\<close> gives 0.9, so that every draw is
  \<^verbatim>\<open>[False]\<close>; all three recognised files are kept all the same, by
  \<^verbatim>\<open>EvalDataset\<close> and by \<^verbatim>\<open>ModelEvalDataset\<close> with the prefix \<^verbatim>\<open>mask\<close>.
\<close>

theorem sampling_scan_keeps_every_file:
  "sampling_draw 8106479329266893 one_half = Inr [False]
   \<and> EvalDataset_setup 4300 corpus_two_subjects (\<lambda>i. 8106479329266893) empty_lists
        \<lparr>eval_data_dir = [''data''], eval_transform = (None :: (unit \<Rightarrow> unit) option),
         data_ratio = one_half\<rparr>
       = Inr two_subjects_lists
   \<and> ModelEvalDataset_setup 4300 corpus_two_subjects (\<lambda>i. 8106479329266893) empty_lists
        \<lparr>eval_data_dir = [''data''], eval_transform = (None :: (unit \<Rightarrow> unit) option),
         data_ratio = one_half, label = ''mask''\<rparr>
       = Inr \<lparr>image_paths = [[''data'', ''000001_female_Asian_45'', ''mask1.jpg'']],
              mask_labels = [], gender_labels = [FEMALE], age_labels = [MIDDLE]\<rparr>"
proof -
  have "sampling_draw 8106479329266893 one_half = Inr [False]"
    by code_simp
  moreover have "EvalDataset_setup 4300 corpus_two_subjects (\<lambda>i. 8106479329266893) empty_lists
        \<lparr>eval_data_dir = [''data''], eval_transform = (None :: (unit \<Rightarrow> unit) option),
         data_ratio = one_half\<rparr>
       = Inr two_subjects_lists"
    by code_simp
  moreover have "ModelEvalDataset_setup 4300 corpus_two_subjects (\<lambda>i. 8106479329266893) empty_lists
        \<lparr>eval_data_dir = [''data''], eval_transform = (None :: (unit \<Rightarrow> unit) option),
         data_ratio = one_half, label = ''mask''\<rparr>
       = Inr \<lparr>image_paths = [[''data'', ''000001_female_Asian_45'', ''mask1.jpg'']],
              mask_labels = [], gender_labels = [FEMALE], age_labels = [MIDDLE]\<rparr>"
    by code_simp
  ultimately show ?thesis by blast
qed

section \<open>Properties of the split policies\<close>

subsection \<open>Random-sample split\<close>






subsection \<open>Subject-disjoint split\<close>







subsection \<open>Subjects and phases\<close>

lemma dd_get_append:
  "dd_get (dd_append m k v) k' = (if k' = k then dd_get m k @ [v] else dd_get m k')"
  by (induction m) (auto simp: dd_get_def)

lemma subject_of_join: "subject_of (os_path_join dir [profile, file_name]) = profile"
  by (simp add: subject_of_def os_path_join_def butlast_append)

lemma image_paths_append_sample:
  "image_paths (append_sample cls p m g a) = image_paths cls @ [p]"
  by (simp add: append_sample_def)

lemma split_scan_files_appends:
  assumes "split_scan_files max_digits dir profile phase (cls, ind, cnt) files = Inr (cls', ind', cnt')"
  shows "\<exists>new. image_paths cls' = image_paths cls @ new
           \<and> (\<forall>q\<in>set new. subject_of q = profile)
           \<and> cnt' = cnt + length new
           \<and> dd_get ind' phase = dd_get ind phase @ [cnt..<cnt']
           \<and> (\<forall>k. k \<noteq> phase \<longrightarrow> dd_get ind' k = dd_get ind k)"
  using assms
proof (induction files arbitrary: cls ind cnt)
  case Nil
  then have "cls' = cls" "ind' = ind" "cnt' = cnt" by simp_all
  then show ?case by simp
next
  case (Cons f files)
  show ?case
  proof (cases "map_of file_names (fst (splitext f))")
    case None
    then have "split_scan_files max_digits dir profile phase (cls, ind, cnt) files = Inr (cls', ind', cnt')"
      using Cons.prems by simp
    then show ?thesis by (rule Cons.IH)
  next
    case (Some mask_label)
    then obtain g a where labels: "profile_labels max_digits profile = Inr (g, a)"
      using Cons.prems by (auto split: sum.splits)
    let ?x = "os_path_join dir [profile, f]"
    let ?cls = "append_sample cls ?x mask_label g a"
    have "split_scan_files max_digits dir profile phase (?cls, dd_append ind phase cnt, cnt + 1) files
            = Inr (cls', ind', cnt')"
      using Cons.prems Some labels by simp
    from Cons.IH [OF this] obtain new where
      p: "image_paths cls' = image_paths ?cls @ new"
      and s: "\<forall>q\<in>set new. subject_of q = profile"
      and c: "cnt' = cnt + 1 + length new"
      and i: "dd_get ind' phase = dd_get (dd_append ind phase cnt) phase @ [cnt + 1..<cnt']"
      and o: "\<forall>k. k \<noteq> phase \<longrightarrow> dd_get ind' k = dd_get (dd_append ind phase cnt) k"
      by blast
    have lt: "cnt < cnt'" using c by simp
    have "image_paths cls' = image_paths cls @ (?x # new)"
      using p by (simp add: image_paths_append_sample)
    moreover have "\<forall>q\<in>set (?x # new). subject_of q = profile"
      using s by (simp add: subject_of_join)
    moreover have "cnt' = cnt + length (?x # new)" using c by simp
    moreover have "dd_get ind' phase = dd_get ind phase @ [cnt..<cnt']"
      using i lt by (simp add: dd_get_append upt_conv_Cons)
    moreover have "\<forall>k. k \<noteq> phase \<longrightarrow> dd_get ind' k = dd_get ind k"
      using o by (simp add: dd_get_append)
    ultimately show ?thesis by blast
  qed
qed

lemma split_scan_indices_appends:
  assumes "split_scan_indices max_digits fs dir profiles phase (cls, ind, cnt) idxs = Inr (cls', ind', cnt')"
  shows "\<exists>new. image_paths cls' = image_paths cls @ new
           \<and> (\<forall>q\<in>set new. \<exists>i\<in>set idxs. i < length profiles \<and> subject_of q = profiles ! i)
           \<and> cnt' = cnt + length new
           \<and> dd_get ind' phase = dd_get ind phase @ [cnt..<cnt']
           \<and> (\<forall>k. k \<noteq> phase \<longrightarrow> dd_get ind' k = dd_get ind k)"
  using assms
proof (induction idxs arbitrary: cls ind cnt)
  case Nil
  then have "cls' = cls" "ind' = ind" "cnt' = cnt" by simp_all
  then show ?case by simp
next
  case (Cons idx idxs)
  from Cons.prems obtain profile where pr: "py_index profiles (int idx) = Inr profile"
    by (auto split: sum.splits)
  then have idx: "idx < length profiles" "profile = profiles ! idx"
    by (auto simp: py_index_def Let_def split: if_splits)
  from Cons.prems pr obtain files where fl: "os_listdir fs (os_path_join dir [profile]) = Inr files"
    by (auto split: sum.splits)
  from Cons.prems pr fl obtain st where
    st: "split_scan_files max_digits dir profile phase (cls, ind, cnt) files = Inr st"
    by (auto split: sum.splits)
  obtain cls1 ind1 cnt1 where st1: "st = (cls1, ind1, cnt1)" by (cases st)
  have rest: "split_scan_indices max_digits fs dir profiles phase (cls1, ind1, cnt1) idxs = Inr (cls', ind', cnt')"
    using Cons.prems pr fl st st1 by simp
  from split_scan_files_appends [OF st [unfolded st1]] obtain new1 where
    p1: "image_paths cls1 = image_paths cls @ new1"
    and s1: "\<forall>q\<in>set new1. subject_of q = profile"
    and c1: "cnt1 = cnt + length new1"
    and i1: "dd_get ind1 phase = dd_get ind phase @ [cnt..<cnt1]"
    and o1: "\<forall>k. k \<noteq> phase \<longrightarrow> dd_get ind1 k = dd_get ind k"
    by blast
  from Cons.IH [OF rest] obtain new2 where
    p2: "image_paths cls' = image_paths cls1 @ new2"
    and s2: "\<forall>q\<in>set new2. \<exists>i\<in>set idxs. i < length profiles \<and> subject_of q = profiles ! i"
    and c2: "cnt' = cnt1 + length new2"
    and i2: "dd_get ind' phase = dd_get ind1 phase @ [cnt1..<cnt']"
    and o2: "\<forall>k. k \<noteq> phase \<longrightarrow> dd_get ind' k = dd_get ind1 k"
    by blast
  have "image_paths cls' = image_paths cls @ (new1 @ new2)" using p1 p2 by simp
  moreover have "\<forall>q\<in>set (new1 @ new2).
      \<exists>i\<in>set (idx # idxs). i < length profiles \<and> subject_of q = profiles ! i"
    using s1 s2 idx by auto
  moreover have "cnt' = cnt + length (new1 @ new2)" using c1 c2 by simp
  moreover have "dd_get ind' phase = dd_get ind phase @ [cnt..<cnt']"
  proof -
    have "[cnt..<cnt1] @ [cnt1..<cnt'] = [cnt..<cnt']"
      using c1 c2 by (metis le_add1 upt_add_eq_append)
    then show ?thesis using i1 i2 by simp
  qed
  moreover have "\<forall>k. k \<noteq> phase \<longrightarrow> dd_get ind' k = dd_get ind k" using o1 o2 by simp
  ultimately show ?case by blast
qed

text \<open>
  When a \<^verbatim>\<open>MaskSplitByProfileDataset\<close> is built while the class lists hold no
  sample yet, over a directory whose listing names each entry once, no index of the
  list keyed \<^verbatim>\<open>train\<close> and index of the list keyed \<^verbatim>\<open>val\<close> are samples of the
  same subject directory; the two lists share no index and together hold every
  sample index.
\<close>

lemma first_construction_no_leakage:
  assumes "MaskSplitByProfileDataset_init max_digits fs rnd iter cls0 dir ratio = Inr (cls, self)"
    and "image_paths cls0 = []"
    and "fs dir = Some entries" and "distinct entries"
    and "\<forall>S. finite S \<longrightarrow> set (iter S) = S \<and> distinct (iter S)"
  shows "(\<forall>i\<in>set (dd_get (indices self) ''train''). \<forall>j\<in>set (dd_get (indices self) ''val'').
            i < length (image_paths cls) \<and> j < length (image_paths cls)
            \<and> subject_of (image_paths cls ! i) \<noteq> subject_of (image_paths cls ! j))
         \<and> set (dd_get (indices self) ''train'') \<union> set (dd_get (indices self) ''val'')
             = {0..<length (image_paths cls)}
         \<and> set (dd_get (indices self) ''train'') \<inter> set (dd_get (indices self) ''val'') = {}"
proof -
  let ?profiles = "filter (\<lambda>profile. \<not> startswith profile ''.'') entries"
  let ?n = "length ?profiles"
  have dp: "distinct ?profiles" using assms(4) by simp
  from assms(1,3) obtain sp where
    sp: "split_profile rnd ?profiles ratio = Inr sp"
    by (auto simp: MaskSplitByProfileDataset_init_def MaskSplitByProfileDataset_setup_def
          os_listdir_def err_bind_def Let_def split: sum.splits)
  then obtain draws where sp': "sp = [(''train'', set [0..<?n] - set draws), (''val'', set draws)]"
    by (auto simp: split_profile_def Let_def err_bind_def split: sum.splits)
  let ?V = "set draws"
  let ?T = "set [0..<?n] - ?V"
  have itT: "set (iter ?T) = ?T" and itV: "set (iter ?V) = ?V"
    using assms(5) by simp_all
  obtain ind cnt where
    ph: "split_scan_phases max_digits fs dir ?profiles iter (cls0, [], 0)
           [(''train'', ?T), (''val'', ?V)] = Inr (cls, ind, cnt)"
    and self: "indices self = ind"
    using assms(1,3) sp sp'
    by (auto simp: MaskSplitByProfileDataset_init_def MaskSplitByProfileDataset_setup_def
          os_listdir_def err_bind_def Let_def split: sum.splits)
  from ph obtain st1 where
    t: "split_scan_indices max_digits fs dir ?profiles ''train'' (cls0, [], 0) (iter ?T) = Inr st1"
    by (auto split: sum.splits)
  obtain cls1 ind1 cnt1 where st1: "st1 = (cls1, ind1, cnt1)" by (cases st1)
  have v: "split_scan_indices max_digits fs dir ?profiles ''val'' (cls1, ind1, cnt1) (iter ?V)
             = Inr (cls, ind, cnt)"
    using ph t st1 by (auto split: sum.splits)
  from split_scan_indices_appends [OF t [unfolded st1]] assms(2) obtain new1 where
    p1: "image_paths cls1 = new1"
    and s1: "\<forall>q\<in>set new1. \<exists>i\<in>set (iter ?T). i < ?n \<and> subject_of q = ?profiles ! i"
    and c1: "cnt1 = length new1"
    and i1: "dd_get ind1 ''train'' = [0..<cnt1]"
    and o1: "\<forall>k. k \<noteq> ''train'' \<longrightarrow> dd_get ind1 k = dd_get [] k"
    by (auto simp: dd_get_def)
  from split_scan_indices_appends [OF v] obtain new2 where
    p2: "image_paths cls = image_paths cls1 @ new2"
    and s2: "\<forall>q\<in>set new2. \<exists>i\<in>set (iter ?V). i < ?n \<and> subject_of q = ?profiles ! i"
    and c2: "cnt = cnt1 + length new2"
    and i2: "dd_get ind ''val'' = dd_get ind1 ''val'' @ [cnt1..<cnt]"
    and o2: "\<forall>k. k \<noteq> ''val'' \<longrightarrow> dd_get ind k = dd_get ind1 k"
    by blast
  have tr: "dd_get ind ''train'' = [0..<cnt1]" using o2 i1 by simp
  have va: "dd_get ind ''val'' = [cnt1..<cnt]" using i2 o1 by (simp add: dd_get_def)
  have paths: "image_paths cls = new1 @ new2" using p1 p2 by simp
  have len: "length (image_paths cls) = cnt" using paths c1 c2 by simp
  have le: "cnt1 \<le> cnt" using c2 by simp
  have leak: "subject_of (image_paths cls ! i) \<noteq> subject_of (image_paths cls ! j)"
    if i: "i < cnt1" and j: "cnt1 \<le> j" "j < cnt" for i j
  proof -
    have "image_paths cls ! i = new1 ! i" using i c1 paths by (simp add: nth_append)
    then have "image_paths cls ! i \<in> set new1" using i c1 by simp
    then obtain a where a: "a \<in> ?T" "a < ?n" "subject_of (image_paths cls ! i) = ?profiles ! a"
      using s1 itT by blast
    have "image_paths cls ! j = new2 ! (j - cnt1)" using j c1 paths by (simp add: nth_append)
    moreover have "j - cnt1 < length new2" using j c2 by simp
    ultimately have "image_paths cls ! j \<in> set new2" by simp
    then obtain b where b: "b \<in> ?V" "b < ?n" "subject_of (image_paths cls ! j) = ?profiles ! b"
      using s2 itV by blast
    have "a \<noteq> b" using a(1) b(1) by blast
    then have "?profiles ! a \<noteq> ?profiles ! b"
      using dp a(2) b(2) by (simp add: nth_eq_iff_index_eq)
    then show ?thesis using a(3) b(3) by simp
  qed
  have "\<forall>i\<in>set (dd_get ind ''train''). \<forall>j\<in>set (dd_get ind ''val'').
          i < length (image_paths cls) \<and> j < length (image_paths cls)
          \<and> subject_of (image_paths cls ! i) \<noteq> subject_of (image_paths cls ! j)"
    using leak le by (auto simp: tr va len)
  moreover have "set (dd_get ind ''train'') \<union> set (dd_get ind ''val'') = {0..<length (image_paths cls)}"
    using le by (auto simp: tr va len)
  moreover have "set (dd_get ind ''train'') \<inter> set (dd_get ind ''val'') = {}"
    by (auto simp: tr va)
  ultimately show ?thesis by (simp add: self)
qed

text \<open>
  C2. The specification, like the comment of the class, has no subject on both
  sides of the split. The lists of samples belong to the class while the counter of
  \<^verbatim>\<open>setup\<close> starts at 0 for each instance. Here a \<^verbatim>\<open>MaskBaseDataset\<close> is built
  first and a \<^verbatim>\<open>MaskSplitByProfileDataset\<close> second, over the same two subjects,
  with the ratio 0.5 and \<^verbatim>\<open>random()\<close> giving 0.125: the second instance records
  the index 0 as training and the indices 1 and 2 as validation, and in its list of
  images the entries 0 and 1 are both images of the subject
  \<^verbatim>\<open>000001_female_Asian_45\<close>.
\<close>

theorem second_construction_mixes_subject:
  "MaskBaseDataset_init 4300 corpus_two_subjects empty_lists [''data''] one_half =
     Inr (two_subjects_lists,
          \<lparr>data_dir = [''data''], val_ratio = one_half, transform = (None :: (unit \<Rightarrow> unit) option)\<rparr>)
   \<and> MaskSplitByProfileDataset_init 4300 corpus_two_subjects (\<lambda>i. 2 ^ 50) sorted_list_of_set
        two_subjects_lists [''data''] one_half =
     Inr (second_scan_lists,
          \<lparr>data_dir = [''data''], val_ratio = one_half, transform = (None :: (unit \<Rightarrow> unit) option),
           indices = [(''train'', [0]), (''val'', [1, 2])]\<rparr>)
   \<and> subject_of (image_paths second_scan_lists ! 0) = ''000001_female_Asian_45''
   \<and> subject_of (image_paths second_scan_lists ! 1) = ''000001_female_Asian_45''"
proof -
  have "MaskBaseDataset_init 4300 corpus_two_subjects empty_lists [''data''] one_half =
     Inr (two_subjects_lists,
          \<lparr>data_dir = [''data''], val_ratio = one_half, transform = (None :: (unit \<Rightarrow> unit) option)\<rparr>)"
    by code_simp
  moreover have "MaskSplitByProfileDataset_init 4300 corpus_two_subjects (\<lambda>i. 2 ^ 50) sorted_list_of_set
        two_subjects_lists [''data''] one_half =
     Inr (second_scan_lists,
          \<lparr>data_dir = [''data''], val_ratio = one_half, transform = (None :: (unit \<Rightarrow> unit) option),
           indices = [(''train'', [0]), (''val'', [1, 2])]\<rparr>)"
    by code_simp
  moreover have "subject_of (image_paths second_scan_lists ! 0) = ''000001_female_Asian_45''"
    by (simp add: second_scan_lists_def two_subjects_lists_def extend_lists_def subject_of_def)
  moreover have "subject_of (image_paths second_scan_lists ! 1) = ''000001_female_Asian_45''"
    by (simp add: second_scan_lists_def two_subjects_lists_def extend_lists_def subject_of_def)
  ultimately show ?thesis by blast
qed

end
